theory Spec2Isabelle
  imports Main
begin

section \<open>Data model of scraper.py\<close>

text \<open>
  Python strings are modelled as \<open>string\<close>; one \<open>char\<close> stands for one code point, so
  \<open>length\<close> is Python's \<open>len\<close>. The dictionaries \<open>{'title': ..., 'url': ...}\<close> built by
  \<open>fetch_headlines\<close> are the record \<open>headline\<close>.
\<close>

record headline =
  title :: string
  url :: string

text \<open>
  One element returned by \<open>soup.select(selector)\<close>, reduced to what the loop reads from it:
  \<open>a.get_text(' ', strip=True)\<close> and the \<open>href\<close> attribute (\<open>None\<close> when the attribute is
  absent, in which case \<open>a.get('href', '')\<close> is the empty string).
\<close>

record element =
  el_text :: string
  el_href :: "string option"

text \<open>
  The parsed document is taken as the function that \<open>soup.select\<close> computes on it: the
  elements matching a selector, in document order. Parsing and CSS matching belong to the
  libraries, not to this program.
\<close>

type_synonym soup = "string \<Rightarrow> element list"

datatype page = Unparseable | Document soup

text \<open>
  What \<open>requests.get\<close> does: it raises, or it returns a response with a status code whose
  text is then handed to the parser.
\<close>

datatype http_get = ConnectionFailed | Response nat page

datatype error = RequestException | HTTPError nat | ParserError | DatabaseError

section \<open>fetch_headlines\<close>

definition BBC_URL :: string where
  "BBC_URL = ''https://www.bbc.com''"

definition selectors :: "string list" where
  "selectors =
     [''a[data-testid=\"internal-link\"]'',
      ''a.bbc-1f5kfds'',
      ''a.gs-c-promo-heading'',
      ''a.ssrcss-1mrs5ns-PromoLink'']"

definition startswith :: "string \<Rightarrow> string \<Rightarrow> bool" where
  "startswith s p = (take (length p) s = p)"

text \<open>
  Lines 204 to 208: a site-relative link is made absolute, a link that is neither relative
  nor http/https is skipped (\<open>None\<close>).
\<close>

definition absolute_url :: "string \<Rightarrow> string option" where
  "absolute_url u =
     (if startswith u ''/'' then Some (BBC_URL @ u)
      else if \<not> (startswith u ''http://'' \<or> startswith u ''https://'') then None
      else Some u)"

text \<open>
  The body of the inner loop up to the \<open>append\<close> (lines 193 to 217): \<open>None\<close> is every
  \<open>continue\<close>, \<open>Some h\<close> is the dictionary appended to \<open>headlines\<close>.
\<close>

definition candidate :: "element \<Rightarrow> headline list \<Rightarrow> headline option" where
  "candidate a headlines =
     (let t = el_text a in
      if t = [] \<or> length t < 10 \<or> length t > 150 then None
      else
        let u = (case el_href a of None \<Rightarrow> [] | Some v \<Rightarrow> v) in
        if u = [] then None
        else
          (case absolute_url u of
             None \<Rightarrow> None
           | Some u' \<Rightarrow>
               if list_ex (\<lambda>h. url h = u') headlines then None
               else Some \<lparr>title = t, url = u'\<rparr>))"

text \<open>
  The inner loop \<open>for a in soup.select(selector)\<close> (lines 191 to 221), with its \<open>break\<close>
  once 20 headlines are held.
\<close>

fun scan_elements :: "element list \<Rightarrow> headline list \<Rightarrow> headline list" where
  "scan_elements [] headlines = headlines"
| "scan_elements (a # rest) headlines =
     (case candidate a headlines of
        None \<Rightarrow> scan_elements rest headlines
      | Some h \<Rightarrow>
          (let headlines' = headlines @ [h] in
           if length headlines' \<ge> 20 then headlines'
           else scan_elements rest headlines'))"

text \<open>
  The outer loop \<open>for selector in selectors\<close> (lines 187 to 221) with its \<open>break\<close> when
  \<open>headlines\<close> is non-empty. The second component records the selectors handed to
  \<open>soup.select\<close>, in call order.
\<close>

fun select_loop ::
  "soup \<Rightarrow> string list \<Rightarrow> headline list \<Rightarrow> string list \<Rightarrow> headline list \<times> string list" where
  "select_loop sp [] headlines consulted = (headlines, consulted)"
| "select_loop sp (s # ss) headlines consulted =
     (if headlines \<noteq> [] then (headlines, consulted)
      else select_loop sp ss (scan_elements (sp s) headlines) (consulted @ [s]))"

text \<open>Lines 177 to 221: the extraction proper, on a parsed document.\<close>

definition extract_headlines :: "soup \<Rightarrow> headline list \<times> string list" where
  "extract_headlines sp = select_loop sp selectors [] []"

text \<open>
  The body of the \<open>try\<close> block of \<open>fetch_headlines\<close>: \<open>Inl\<close> is an exception raised inside
  it. \<open>raise_for_status\<close> raises for the status codes 400 to 599.
\<close>

definition fetch_body :: "http_get \<Rightarrow> error + headline list" where
  "fetch_body g =
     (case g of
        ConnectionFailed \<Rightarrow> Inl RequestException
      | Response status p \<Rightarrow>
          if 400 \<le> status \<and> status < 600 then Inl (HTTPError status)
          else
            (case p of
               Unparseable \<Rightarrow> Inl ParserError
             | Document sp \<Rightarrow> Inr (fst (extract_headlines sp))))"

text \<open>\<open>fetch_headlines\<close> with its handler \<open>except Exception: ... return []\<close>.\<close>

definition fetch_headlines :: "http_get \<Rightarrow> headline list" where
  "fetch_headlines g = (case fetch_body g of Inl e \<Rightarrow> [] | Inr headlines \<Rightarrow> headlines)"

text \<open>What one rule accepts on its own: the inner loop started on no headlines.\<close>

definition rule_yield :: "soup \<Rightarrow> string \<Rightarrow> headline list" where
  "rule_yield sp s = scan_elements (sp s) []"


text \<open>The property every accepted headline has.\<close>

definition well_formed :: "headline \<Rightarrow> bool" where
  "well_formed h =
     (10 \<le> length (title h) \<and> length (title h) \<le> 150 \<and>
      (startswith (url h) ''http://'' \<or> startswith (url h) ''https://''))"

definition bounded_distinct :: "headline list \<Rightarrow> bool" where
  "bounded_distinct hs = (length hs \<le> 20 \<and> distinct (map url hs) \<and> list_all well_formed hs)"

section \<open>The headlines table and save_headlines\<close>

text \<open>
  A row of the table \<open>headlines(id, title, url, timestamp)\<close>. The \<open>timestamp\<close> column is
  filled by the database from its clock and is read nowhere in the program; it is left out.
  The table is the list of its rows in insertion order.
\<close>

record row =
  row_id :: nat
  row_title :: string
  row_url :: string

text \<open>
  \<open>SELECT id FROM headlines WHERE title = ?\<close> followed by \<open>fetchone()\<close>: a row is
  returned exactly when some row holds that title.
\<close>

definition title_exists :: "row list \<Rightarrow> string \<Rightarrow> bool" where
  "title_exists rows t = list_ex (\<lambda>r. row_title r = t) rows"

text \<open>The key given by \<open>AUTOINCREMENT\<close>: one more than the largest key in the table.\<close>

definition next_id :: "row list \<Rightarrow> nat" where
  "next_id rows = Suc (fold max (map row_id rows) 0)"

text \<open>\<open>INSERT INTO headlines (title, url) VALUES (?, ?)\<close>.\<close>

definition insert_row :: "row list \<Rightarrow> headline \<Rightarrow> row list" where
  "insert_row rows item =
     rows @ [\<lparr>row_id = next_id rows, row_title = title item, row_url = url item\<rparr>]"

text \<open>The loop of \<open>save_headlines\<close> (lines 288 to 299), on the table and \<open>new_headlines\<close>.\<close>

fun save_loop :: "headline list \<Rightarrow> row list \<Rightarrow> headline list \<Rightarrow> row list \<times> headline list" where
  "save_loop [] rows new_headlines = (rows, new_headlines)"
| "save_loop (item # rest) rows new_headlines =
     (if \<not> title_exists rows (title item)
      then save_loop rest (insert_row rows item) (new_headlines @ [item])
      else save_loop rest rows new_headlines)"

text \<open>\<open>save_headlines\<close>: the table after the commit and the list returned.\<close>

definition save_headlines :: "row list \<Rightarrow> headline list \<Rightarrow> row list \<times> headline list" where
  "save_headlines rows headlines =
     (if headlines = [] then (rows, []) else save_loop headlines rows [])"

text \<open>
  The table as it stands when the loop reaches the candidate at position \<open>i\<close>: the loop has
  run over the \<open>i\<close> candidates before it.
\<close>

definition store_before :: "row list \<Rightarrow> headline list \<Rightarrow> nat \<Rightarrow> row list" where
  "store_before rows headlines i = fst (save_loop (take i headlines) rows [])"

text \<open>The table component of the loop on its own.\<close>

fun stored :: "headline list \<Rightarrow> row list \<Rightarrow> row list" where
  "stored [] rows = rows"
| "stored (item # rest) rows =
     stored rest (if \<not> title_exists rows (title item) then insert_row rows item else rows)"

text \<open>Successive calls of \<open>save_headlines\<close> on one table, one call for each batch.\<close>

definition save_all :: "row list \<Rightarrow> headline list list \<Rightarrow> row list" where
  "save_all rows batches = foldl (\<lambda>r b. fst (save_headlines r b)) rows batches"

section \<open>Credentials and send_telegram_notification\<close>

text \<open>The two environment variables read by \<open>get_telegram_credentials\<close>; \<open>None\<close> is unset.\<close>

record environ =
  TELEGRAM_TOKEN :: "string option"
  TELEGRAM_CHAT_IDS :: "string option"

text \<open>The code points below 256 that \<open>str.strip()\<close> removes.\<close>

definition isspace :: "char \<Rightarrow> bool" where
  "isspace c =
     (let n = (of_char c :: nat)
      in (9 \<le> n \<and> n \<le> 13) \<or> (28 \<le> n \<and> n \<le> 32) \<or> n = 133 \<or> n = 160)"

definition strip :: "string \<Rightarrow> string" where
  "strip s = rev (dropWhile isspace (rev (dropWhile isspace s)))"

text \<open>\<open>s.split(',')\<close>: never empty, \<open>''.split(',')\<close> is \<open>['']\<close>.\<close>

fun split_comma :: "string \<Rightarrow> string list" where
  "split_comma [] = [[]]"
| "split_comma (c # cs) =
     (if c = CHR '','' then [] # split_comma cs
      else (case split_comma cs of
              [] \<Rightarrow> [[c]]
            | w # ws \<Rightarrow> (c # w) # ws))"

text \<open>Python's \<open>not token\<close> for a value that is \<open>None\<close> or a string.\<close>

definition falsy :: "string option \<Rightarrow> bool" where
  "falsy token = (token = None \<or> token = Some [])"

definition get_telegram_credentials :: "environ \<Rightarrow> string option \<times> string list" where
  "get_telegram_credentials env =
     (let token = TELEGRAM_TOKEN env;
          raw = split_comma (case TELEGRAM_CHAT_IDS env of None \<Rightarrow> [] | Some v \<Rightarrow> v);
          chat_ids = map strip (filter (\<lambda>cid. strip cid \<noteq> []) raw)
      in if falsy token \<or> chat_ids = [] then (None, []) else (token, chat_ids))"

text \<open>
  What one call of \<open>requests.post\<close> does: it raises, or it returns a response with a status
  code. The network is the function giving this for the position of the recipient in the
  loop and the chat id.
\<close>

datatype post_result = PostRaised | PostStatus nat

type_synonym network = "nat \<Rightarrow> string \<Rightarrow> post_result"

text \<open>
  The loop \<open>for chat_id in chat_ids\<close> (lines 139 to 160). \<open>sent\<close> records every call of
  \<open>requests.post\<close> as the pair of the payload's \<open>chat_id\<close> and \<open>text\<close>; a call that raises
  is handled by \<open>except Exception\<close> and the loop goes on.
\<close>

fun send_loop ::
  "network \<Rightarrow> string \<Rightarrow> nat \<Rightarrow> string list \<Rightarrow> nat \<Rightarrow> (string \<times> string) list \<Rightarrow>
   nat \<times> (string \<times> string) list" where
  "send_loop net message i [] success_count sent = (success_count, sent)"
| "send_loop net message i (chat_id # rest) success_count sent =
     (case net i chat_id of
        PostRaised \<Rightarrow>
          send_loop net message (Suc i) rest success_count (sent @ [(chat_id, message)])
      | PostStatus code \<Rightarrow>
          if code = 200
          then send_loop net message (Suc i) rest (success_count + 1) (sent @ [(chat_id, message)])
          else send_loop net message (Suc i) rest success_count (sent @ [(chat_id, message)]))"

text \<open>The result \<open>(success_count, total_attempts)\<close> and the requests posted.\<close>

definition send_telegram_notification ::
  "environ \<Rightarrow> network \<Rightarrow> string \<Rightarrow> (nat \<times> nat) \<times> (string \<times> string) list" where
  "send_telegram_notification env net message =
     (let (token, chat_ids) = get_telegram_credentials env in
      if falsy token \<or> chat_ids = [] then ((0, 0), [])
      else
        let total_attempts = length chat_ids;
            (success_count, sent) = send_loop net message 0 chat_ids 0 []
        in ((success_count, total_attempts), sent))"

section \<open>The database file, is_first_run and setup_database\<close>

text \<open>
  The file \<open>headlines.db\<close> as the program meets it: whether \<open>sqlite3.connect\<close> succeeds,
  the \<open>headlines\<close> table if it exists, and whether \<open>CREATE TABLE IF NOT EXISTS\<close> and its
  commit succeed (they fail, for example, on a read-only file).
\<close>

record database =
  db_opens :: bool
  db_table :: "row list option"
  db_create_ok :: bool

text \<open>The rows held by the store: none when the table does not exist.\<close>

definition table_rows :: "database \<Rightarrow> row list" where
  "table_rows d = (case db_table d of None \<Rightarrow> [] | Some rows \<Rightarrow> rows)"

text \<open>The \<open>try\<close> body of \<open>is_first_run\<close>: connect, then \<open>SELECT COUNT(*) FROM headlines\<close>.\<close>

definition count_headlines :: "database \<Rightarrow> error + nat" where
  "count_headlines d =
     (if \<not> db_opens d then Inl DatabaseError
      else (case db_table d of
              None \<Rightarrow> Inl DatabaseError
            | Some rows \<Rightarrow> Inr (length rows)))"

text \<open>\<open>is_first_run\<close> with its handler \<open>except: return True\<close>.\<close>

definition is_first_run :: "database \<Rightarrow> bool" where
  "is_first_run d = (case count_headlines d of Inl e \<Rightarrow> True | Inr count \<Rightarrow> count = 0)"

text \<open>The \<open>try\<close> body of \<open>setup_database\<close>: connect, create the table if absent, commit.\<close>

definition create_table :: "database \<Rightarrow> error + row list" where
  "create_table d =
     (if \<not> db_opens d then Inl DatabaseError
      else if \<not> db_create_ok d then Inl DatabaseError
      else Inr (table_rows d))"

text \<open>
  \<open>setup_database\<close> with its handler \<open>except Exception: ... return None\<close>; the connection
  returned is modelled by the table it gives access to.
\<close>

definition setup_database :: "database \<Rightarrow> row list option" where
  "setup_database d = (case create_table d of Inl e \<Rightarrow> None | Inr rows \<Rightarrow> Some rows)"

section \<open>Messages\<close>

text \<open>
  The literals of the program. Their code points beyond Latin-1 (two emoji and an arrow)
  are written as their UTF-8 bytes; the program never takes the length of these literals.
\<close>

definition newline :: string where
  "newline = [CHR 0x0A]"

definition test_message :: string where
  "test_message =
     [CHR 0xF0, CHR 0x9F, CHR 0x93, CHR 0xA1] @
     '' <b>BBC Headline Notifier - Connection Successful</b>'' @ newline @ newline @
     ''Your notification service is now active and ready to deliver the latest BBC headlines.'' @
     newline @
     ''Next update: When new headlines are published.'' @ newline @ newline @
     ''<i>This is an automated message. No action is required.</i>''"

definition message_header :: string where
  "message_header =
     ''<b>'' @ [CHR 0xF0, CHR 0x9F, CHR 0x93, CHR 0xB0] @ '' Latest BBC Headlines</b>'' @
     newline @ newline"

text \<open>\<open>str(idx)\<close> for a natural number.\<close>

fun str_nat :: "nat \<Rightarrow> string" where
  "str_nat n =
     (if n < 10 then [''0123456789'' ! n]
      else str_nat (n div 10) @ [''0123456789'' ! (n mod 10)])"

declare str_nat.simps [simp del]

text \<open>Lines 373 to 376: the title as it is embedded in the message.\<close>

definition embedded_title :: "string \<Rightarrow> string" where
  "embedded_title t = (if length t > 80 then take 77 t @ ''...'' else t)"

text \<open>Line 377: the text appended to the message for one item.\<close>

definition message_entry :: "nat \<Rightarrow> headline \<Rightarrow> string" where
  "message_entry idx item =
     str_nat idx @ ''. <b>'' @ embedded_title (title item) @ ''</b>'' @ newline @
     ''<a href='' @ [CHR 0x27] @ url item @ [CHR 0x27] @ ''>Read more '' @
     [CHR 0xE2, CHR 0x86, CHR 0x92] @ ''</a>'' @ newline @ newline"

text \<open>The loop \<open>for idx, item in enumerate(new_headlines[:5], 1)\<close> with \<open>message +=\<close>.\<close>

fun message_loop :: "nat \<Rightarrow> headline list \<Rightarrow> string \<Rightarrow> string" where
  "message_loop idx [] message = message"
| "message_loop idx (item # rest) message =
     message_loop (Suc idx) rest (message @ message_entry idx item)"

definition format_message :: "headline list \<Rightarrow> string" where
  "format_message new_headlines = message_loop 1 (take 5 new_headlines) message_header"

section \<open>main\<close>

text \<open>
  Everything outside the program that one run of \<open>main\<close> meets: the environment, the database
  file, the outcome of fetching the page, and the network answering the posts of a message.
\<close>

record world =
  w_env :: environ
  w_db :: database
  w_get :: http_get
  w_post :: "string \<Rightarrow> network"

text \<open>
  What a run does, in order: a call of \<open>send_telegram_notification\<close> with its message and
  the requests it posted, the attempt to set up the database and whether it gave a
  connection, the fetch, the save with the list it returned, and \<open>conn.close()\<close>.
\<close>

datatype event =
    Notification string "(string \<times> string) list"
  | DatabaseSetup bool
  | Fetched "headline list"
  | Saved "headline list"
  | Closed

text \<open>
  How \<open>main\<close> ends, and the exit code the interpreter gives the process: 0 when \<open>main\<close>
  returns, 1 when an exception leaves it.
\<close>

datatype ending = Returned | Uncaught error


record run =
  run_events :: "event list"
  run_table :: "row list option"
  run_ending :: ending

definition send_test_notification :: "environ \<Rightarrow> network \<Rightarrow> event" where
  "send_test_notification env net =
     Notification test_message (snd (send_telegram_notification env net test_message))"

text \<open>
  \<open>main\<close> (lines 332 to 397). Printing and \<open>display_headlines\<close> are left out. Every
  \<open>return\<close> and the end of the function give \<open>Returned\<close>; the program has no call of
  \<open>sys.exit\<close>.
\<close>

definition main :: "world \<Rightarrow> run" where
  "main w =
     (let (token, chat_ids) = get_telegram_credentials (w_env w);
          first =
            (if falsy token \<or> chat_ids = [] then []
             else if is_first_run (w_db w)
               then [send_test_notification (w_env w) (w_post w test_message)]
               else [])
      in case setup_database (w_db w) of
           None \<Rightarrow>
             \<lparr>run_events = first @ [DatabaseSetup False],
              run_table = db_table (w_db w),
              run_ending = Returned\<rparr>
         | Some rows \<Rightarrow>
             let headlines = fetch_headlines (w_get w) in
             if headlines = [] then
               \<lparr>run_events = first @ [DatabaseSetup True, Fetched headlines, Closed],
                run_table = Some rows,
                run_ending = Returned\<rparr>
             else
               let (rows', new_headlines) = save_headlines rows headlines;
                   message = format_message new_headlines;
                   notified =
                     (if new_headlines \<noteq> [] then
                        if \<not> falsy token \<and> chat_ids \<noteq> []
                        then [Notification message
                                (snd (send_telegram_notification (w_env w) (w_post w message)
                                        message))]
                        else []
                      else [])
               in \<lparr>run_events =
                     first @ [DatabaseSetup True, Fetched headlines, Saved new_headlines] @
                     notified @ [Closed],
                   run_table = Some rows',
                   run_ending = Returned\<rparr>)"

text \<open>A bootstrap notification: a call of the notifier with the test message.\<close>

fun is_bootstrap :: "event \<Rightarrow> bool" where
  "is_bootstrap (Notification m posts) = (m = test_message)"
| "is_bootstrap e = False"


section \<open>Sample inputs\<close>

definition sample_soup :: soup where
  "sample_soup s =
     (if s = ''a.bbc-1f5kfds'' then
        [\<lparr>el_text = ''short'', el_href = Some ''/news/short''\<rparr>,
         \<lparr>el_text = ''Markets rally as rates hold'', el_href = Some ''/news/business-1''\<rparr>,
         \<lparr>el_text = ''Storm warnings issued for coast'', el_href = None\<rparr>,
         \<lparr>el_text = ''Markets rally again, say analysts'', el_href = Some ''/news/business-1''\<rparr>,
         \<lparr>el_text = ''Election results expected tonight'', el_href = Some ''https://www.bbc.co.uk/news/politics-2''\<rparr>,
         \<lparr>el_text = ''Contact the newsroom by mail'', el_href = Some ''mailto:news@bbc.co.uk''\<rparr>]
      else if s = ''a.gs-c-promo-heading'' then
        [\<lparr>el_text = ''Older layout headline text'', el_href = Some ''/news/old-3''\<rparr>]
      else if s = ''a[data-testid=\"internal-link\"]'' then
        [\<lparr>el_text = ''Home'', el_href = Some ''/''\<rparr>,
         \<lparr>el_text = ''A headline without any link'', el_href = None\<rparr>]
      else [])"

definition sample_headlines :: "headline list" where
  "sample_headlines =
     [\<lparr>title = ''Markets rally as rates hold'', url = ''https://www.bbc.com/news/business-1''\<rparr>,
      \<lparr>title = ''Election results expected tonight'', url = ''https://www.bbc.co.uk/news/politics-2''\<rparr>]"


definition sample_rows :: "row list" where
  "sample_rows =
     [\<lparr>row_id = 1, row_title = ''Markets rally as rates hold'',
       row_url = ''https://www.bbc.com/news/business-0''\<rparr>]"

definition sample_batch :: "headline list" where
  "sample_batch =
     [\<lparr>title = ''Storm warnings issued for coast'', url = ''https://www.bbc.com/news/uk-5''\<rparr>,
      \<lparr>title = ''Markets rally as rates hold'', url = ''https://www.bbc.com/news/business-1''\<rparr>,
      \<lparr>title = ''Storm warnings issued for coast'', url = ''https://www.bbc.com/news/uk-6''\<rparr>,
      \<lparr>title = ''Election results expected tonight'', url = ''https://www.bbc.co.uk/news/politics-2''\<rparr>]"

definition sample_env :: environ where
  "sample_env = \<lparr>TELEGRAM_TOKEN = Some ''123:abc'', TELEGRAM_CHAT_IDS = Some '' 42, ,77,901 ''\<rparr>"

definition sample_net :: network where
  "sample_net i chat_id = (if i = 1 then PostRaised else PostStatus 200)"

definition readonly_world :: world where
  "readonly_world =
     \<lparr>w_env = \<lparr>TELEGRAM_TOKEN = Some ''123:abc'', TELEGRAM_CHAT_IDS = Some ''42''\<rparr>,
      w_db = \<lparr>db_opens = True, db_table = None, db_create_ok = False\<rparr>,
      w_get = Response 200 (Document sample_soup),
      w_post = (\<lambda>message i chat_id. PostStatus 200)\<rparr>"

definition fresh_world :: world where
  "fresh_world =
     \<lparr>w_env = sample_env,
      w_db = \<lparr>db_opens = True, db_table = None, db_create_ok = True\<rparr>,
      w_get = Response 200 (Document sample_soup),
      w_post = (\<lambda>message. sample_net)\<rparr>"

definition busy_headline :: "nat \<Rightarrow> headline" where
  "busy_headline k =
     \<lparr>title = ''Headline '' @ str_nat k @ '' '' @ replicate (if k = 1 then 90 else 12) CHR ''x'',
      url = BBC_URL @ ''/news/'' @ str_nat k\<rparr>"

definition busy_soup :: soup where
  "busy_soup s =
     (if s = ''a.bbc-1f5kfds''
      then map (\<lambda>k. \<lparr>el_text = title (busy_headline k), el_href = Some (''/news/'' @ str_nat k)\<rparr>)
             [1, 2, 3, 4, 5, 6, 7]
      else [])"

definition busy_world :: world where
  "busy_world =
     \<lparr>w_env = sample_env,
      w_db = \<lparr>db_opens = True, db_table = Some [], db_create_ok = True\<rparr>,
      w_get = Response 200 (Document busy_soup),
      w_post = (\<lambda>message. sample_net)\<rparr>"


definition blocked_world :: world where
  "blocked_world =
     \<lparr>w_env = sample_env,
      w_db = \<lparr>db_opens = False, db_table = Some sample_rows, db_create_ok = True\<rparr>,
      w_get = ConnectionFailed,
      w_post = (\<lambda>message. sample_net)\<rparr>"

section \<open>Properties of the extractor\<close>

lemma absolute_url_scheme:
  "absolute_url u = Some u' \<Longrightarrow> startswith u' ''http://'' \<or> startswith u' ''https://''"
  by (auto simp: absolute_url_def BBC_URL_def startswith_def split: if_splits)

lemma candidate_well_formed: "candidate a hs = Some h \<Longrightarrow> well_formed h"
  by (auto simp: candidate_def well_formed_def Let_def list_ex_iff
      split: if_splits option.splits dest: absolute_url_scheme)

lemma candidate_fresh: "candidate a hs = Some h \<Longrightarrow> url h \<notin> url ` set hs"
  by (auto simp: candidate_def Let_def list_ex_iff split: if_splits option.splits)

lemma scan_elements_inv:
  "length hs < 20 \<Longrightarrow> distinct (map url hs) \<Longrightarrow> list_all well_formed hs \<Longrightarrow>
   bounded_distinct (scan_elements els hs)"
proof (induction els arbitrary: hs)
  case Nil
  then show ?case by (simp add: bounded_distinct_def)
next
  case (Cons a els)
  show ?case
  proof (cases "candidate a hs")
    case None
    with Cons show ?thesis by simp
  next
    case (Some h)
    have wf: "list_all well_formed (hs @ [h])"
      using Cons.prems(3) candidate_well_formed [OF Some] by simp
    have ds: "distinct (map url (hs @ [h]))"
      using Cons.prems(2) candidate_fresh [OF Some] by simp
    show ?thesis
    proof (cases "length (hs @ [h]) \<ge> 20")
      case True
      with Cons.prems(1) wf ds Some show ?thesis
        by (simp add: bounded_distinct_def Let_def)
    next
      case False
      then have "length (hs @ [h]) < 20" by simp
      from Cons.IH [OF this ds wf] Some False show ?thesis
        by (simp add: Let_def)
    qed
  qed
qed

lemma select_loop_inv:
  "bounded_distinct hs \<Longrightarrow> bounded_distinct (fst (select_loop sp ss hs cs))"
proof (induction ss arbitrary: hs cs)
  case Nil
  then show ?case by simp
next
  case (Cons s ss)
  show ?case
  proof (cases "hs = []")
    case True
    have "bounded_distinct (scan_elements (sp s) [])"
      by (rule scan_elements_inv) simp_all
    from Cons.IH [OF this] True show ?thesis by simp
  next
    case False
    with Cons.prems show ?thesis by simp
  qed
qed

lemma extract_headlines_inv: "bounded_distinct (fst (extract_headlines sp))"
  unfolding extract_headlines_def by (rule select_loop_inv) (simp add: bounded_distinct_def)

lemma fetch_body_Inr:
  "fetch_body g = Inr hs \<Longrightarrow> \<exists>st sp. g = Response st (Document sp) \<and> hs = fst (extract_headlines sp)"
  by (auto simp: fetch_body_def split: http_get.splits page.splits if_splits)

lemma fetch_headlines_inv: "bounded_distinct (fetch_headlines g)"
proof (cases "fetch_body g")
  case (Inl e)
  then show ?thesis by (simp add: fetch_headlines_def bounded_distinct_def)
next
  case (Inr hs)
  from fetch_body_Inr [OF Inr] obtain sp where "hs = fst (extract_headlines sp)" by blast
  with Inr show ?thesis by (simp add: fetch_headlines_def extract_headlines_inv)
qed


text \<open>
  C1: for every fetch outcome, \<open>fetch_headlines\<close> returns at most 20 headlines, no two of
  them with the same link, each with a title of 10 to 150 characters and a link that starts
  with \<open>http://\<close> or \<open>https://\<close>.
\<close>

theorem fetch_headlines_bounds:
  "length (fetch_headlines g) \<le> 20 \<and>
   distinct (map url (fetch_headlines g)) \<and>
   (\<forall>h \<in> set (fetch_headlines g).
      10 \<le> length (title h) \<and> length (title h) \<le> 150 \<and>
      (startswith (url h) ''http://'' \<or> startswith (url h) ''https://''))"
  using fetch_headlines_inv [of g]
  by (simp add: bounded_distinct_def well_formed_def list_all_iff)

lemma rule_yield_sample:
  "rule_yield sample_soup ''a[data-testid=\"internal-link\"]'' = []"
  "rule_yield sample_soup ''a.bbc-1f5kfds'' = sample_headlines"
  by (simp_all add: rule_yield_def sample_soup_def sample_headlines_def candidate_def
      absolute_url_def startswith_def BBC_URL_def)

lemma extract_headlines_sample:
  "extract_headlines sample_soup =
     (sample_headlines, [''a[data-testid=\"internal-link\"]'', ''a.bbc-1f5kfds''])"
  using rule_yield_sample
  by (simp add: extract_headlines_def selectors_def rule_yield_def sample_headlines_def)

lemma fetch_headlines_sample:
  "fetch_headlines (Response 200 (Document sample_soup)) = sample_headlines"
  by (simp add: fetch_headlines_def fetch_body_def extract_headlines_sample)

theorem fetch_headlines_bounds_witness:
  "\<lparr>title = ''Markets rally as rates hold'', url = ''https://www.bbc.com/news/business-1''\<rparr>
     \<in> set (fetch_headlines (Response 200 (Document sample_soup))) \<and>
   length (fetch_headlines (Response 200 (Document sample_soup))) = 2 \<and>
   10 \<le> length ''Markets rally as rates hold'' \<and>
   length ''Markets rally as rates hold'' \<le> 150 \<and>
   startswith ''https://www.bbc.com/news/business-1'' ''https://''"
  using fetch_headlines_bounds [of "Response 200 (Document sample_soup)"]
  by (simp add: fetch_headlines_sample sample_headlines_def startswith_def)

subsection \<open>Rule fallback\<close>

lemma select_loop_held:
  "hs \<noteq> [] \<Longrightarrow> select_loop sp ss hs cs = (hs, cs)"
  by (cases ss) simp_all

lemma select_loop_barren:
  "\<forall>r \<in> set pre. rule_yield sp r = [] \<Longrightarrow>
   select_loop sp (pre @ rest) [] cs = select_loop sp rest [] (cs @ pre)"
  by (induction pre arbitrary: cs) (simp_all add: rule_yield_def)

lemma select_loop_first_yield:
  assumes "\<forall>r \<in> set pre. rule_yield sp r = []" and "rule_yield sp s \<noteq> []"
  shows "select_loop sp (pre @ s # post) [] [] = (rule_yield sp s, pre @ [s])"
proof -
  have "select_loop sp (pre @ s # post) [] [] = select_loop sp (s # post) [] pre"
    using select_loop_barren [OF assms(1), of "s # post" "[]"] by simp
  also have "\<dots> = select_loop sp post (rule_yield sp s) (pre @ [s])"
    by (simp add: rule_yield_def)
  also have "\<dots> = (rule_yield sp s, pre @ [s])"
    by (rule select_loop_held [OF assms(2)])
  finally show ?thesis .
qed

lemma distinct_selectors: "distinct selectors"
  by (simp add: selectors_def)

text \<open>
  C2: the rules are tried in the order of \<open>selectors\<close>; when every rule before \<open>s\<close> accepts
  nothing and \<open>s\<close> accepts at least one candidate, the headlines returned are exactly those
  that \<open>s\<close> accepts, the selectors consulted are exactly the ones up to and including \<open>s\<close>,
  and no later selector is consulted.
\<close>

theorem extract_stops_at_first_yield:
  assumes "selectors = pre @ s # post"
    and "\<forall>r \<in> set pre. rule_yield sp r = []"
    and "rule_yield sp s \<noteq> []"
  shows "fst (extract_headlines sp) = rule_yield sp s \<and>
         snd (extract_headlines sp) = pre @ [s] \<and>
         set post \<inter> set (snd (extract_headlines sp)) = {} \<and>
         (\<forall>st. \<not> (400 \<le> st \<and> st < 600) \<longrightarrow>
            fetch_headlines (Response st (Document sp)) = rule_yield sp s)"
proof -
  have run: "extract_headlines sp = (rule_yield sp s, pre @ [s])"
    unfolding extract_headlines_def assms(1)
    by (rule select_loop_first_yield [OF assms(2,3)])
  have "distinct (pre @ s # post)"
    using distinct_selectors assms(1) by simp
  then have "set post \<inter> set (pre @ [s]) = {}" by auto
  with run show ?thesis
    by (simp add: fetch_headlines_def fetch_body_def)
qed

theorem extract_stops_at_first_yield_witness:
  "selectors = [''a[data-testid=\"internal-link\"]''] @ ''a.bbc-1f5kfds'' #
       [''a.gs-c-promo-heading'', ''a.ssrcss-1mrs5ns-PromoLink''] \<and>
   rule_yield sample_soup ''a[data-testid=\"internal-link\"]'' = [] \<and>
   rule_yield sample_soup ''a.bbc-1f5kfds'' \<noteq> [] \<and>
   rule_yield sample_soup ''a.gs-c-promo-heading'' \<noteq> [] \<and>
   fst (extract_headlines sample_soup) = sample_headlines \<and>
   snd (extract_headlines sample_soup) = [''a[data-testid=\"internal-link\"]'', ''a.bbc-1f5kfds''] \<and>
   fetch_headlines (Response 200 (Document sample_soup)) = sample_headlines"
proof -
  have a: "selectors = [''a[data-testid=\"internal-link\"]''] @ ''a.bbc-1f5kfds'' #
       [''a.gs-c-promo-heading'', ''a.ssrcss-1mrs5ns-PromoLink'']"
    by (simp add: selectors_def)
  have b: "\<forall>r \<in> set [''a[data-testid=\"internal-link\"]'']. rule_yield sample_soup r = []"
    by (simp add: rule_yield_sample)
  have c: "rule_yield sample_soup ''a.bbc-1f5kfds'' \<noteq> []"
    by (simp add: rule_yield_sample sample_headlines_def)
  have d: "rule_yield sample_soup ''a.gs-c-promo-heading'' \<noteq> []"
    by (simp add: rule_yield_def sample_soup_def candidate_def absolute_url_def
        startswith_def BBC_URL_def)
  from extract_stops_at_first_yield [OF a b c] a b c d show ?thesis
    by (simp add: rule_yield_sample)
qed

lemma extract_none_yield:
  "\<forall>r \<in> set selectors. rule_yield sp r = [] \<Longrightarrow> extract_headlines sp = ([], selectors)"
  using select_loop_barren [of selectors sp "[]" "[]"] by (simp add: extract_headlines_def)

subsection \<open>Failures inside fetch_headlines\<close>

lemma scan_elements_skip:
  "candidate a hs = None \<Longrightarrow> scan_elements (a # rest) hs = scan_elements rest hs"
  by simp








section \<open>Properties of save_headlines\<close>

lemma save_loop_stored: "fst (save_loop hs rows acc) = stored hs rows"
  by (induction hs arbitrary: rows acc) simp_all

lemma save_loop_new:
  "snd (save_loop hs rows acc) =
     acc @ nths hs {i. i < length hs \<and> \<not> title_exists (stored (take i hs) rows) (title (hs ! i))}"
proof (induction hs arbitrary: rows acc)
  case Nil
  then show ?case by simp
next
  case (Cons h hs)
  let ?rows1 = "if \<not> title_exists rows (title h) then insert_row rows h else rows"
  let ?A = "{i. i < length (h # hs) \<and>
               \<not> title_exists (stored (take i (h # hs)) rows) (title ((h # hs) ! i))}"
  have shift: "{j. Suc j \<in> ?A} =
      {j. j < length hs \<and> \<not> title_exists (stored (take j hs) ?rows1) (title (hs ! j))}"
    by simp
  have zero: "0 \<in> ?A \<longleftrightarrow> \<not> title_exists rows (title h)"
    by simp
  have "nths (h # hs) ?A = (if 0 \<in> ?A then [h] else []) @ nths hs {j. Suc j \<in> ?A}"
    by (rule nths_Cons)
  then have unfold: "nths (h # hs) ?A =
      (if \<not> title_exists rows (title h) then [h] else []) @
      nths hs {j. j < length hs \<and> \<not> title_exists (stored (take j hs) ?rows1) (title (hs ! j))}"
    unfolding shift zero .
  show ?case
  proof (cases "title_exists rows (title h)")
    case True
    then show ?thesis
      using Cons.IH [of rows acc] unfold by simp
  next
    case False
    then show ?thesis
      using Cons.IH [of "insert_row rows h" "acc @ [h]"] unfold by simp
  qed
qed

lemma title_exists_iff: "title_exists rows t \<longleftrightarrow> t \<in> row_title ` set rows"
  by (auto simp: title_exists_def list_ex_iff)

lemma step_titles:
  "row_title ` set (if \<not> title_exists rows (title h) then insert_row rows h else rows) =
     insert (title h) (row_title ` set rows)"
  by (auto simp: title_exists_iff insert_row_def)

lemma stored_titles:
  "row_title ` set (stored hs rows) = row_title ` set rows \<union> title ` set hs"
proof (induction hs arbitrary: rows)
  case Nil
  then show ?case by simp
next
  case (Cons h hs)
  have "row_title ` set (stored (h # hs) rows) =
      insert (title h) (row_title ` set rows) \<union> title ` set hs"
    using Cons.IH [of "if \<not> title_exists rows (title h) then insert_row rows h else rows"]
    by (simp only: stored.simps step_titles)
  then show ?case by simp
qed

lemma stored_distinct:
  "distinct (map row_title rows) \<Longrightarrow> distinct (map row_title (stored hs rows))"
proof (induction hs arbitrary: rows)
  case Nil
  then show ?case by simp
next
  case (Cons h hs)
  have "distinct (map row_title (if \<not> title_exists rows (title h) then insert_row rows h else rows))"
    using Cons.prems by (auto simp: title_exists_iff insert_row_def)
  from Cons.IH [OF this] show ?case by simp
qed

lemma stored_extends: "\<exists>added. stored hs rows = rows @ added"
proof (induction hs arbitrary: rows)
  case Nil
  then show ?case by simp
next
  case (Cons h hs)
  obtain added where
    "stored hs (if \<not> title_exists rows (title h) then insert_row rows h else rows) =
       (if \<not> title_exists rows (title h) then insert_row rows h else rows) @ added"
    using Cons.IH by blast
  then show ?case by (auto simp: insert_row_def)
qed

lemma save_loop_fields:
  "map (\<lambda>r. (row_title r, row_url r)) rows = base @ map (\<lambda>h. (title h, url h)) acc \<Longrightarrow>
   map (\<lambda>r. (row_title r, row_url r)) (fst (save_loop hs rows acc)) =
     base @ map (\<lambda>h. (title h, url h)) (snd (save_loop hs rows acc))"
  by (induction hs arbitrary: rows acc) (simp_all add: insert_row_def)

lemma save_loop_known:
  "title ` set hs \<subseteq> row_title ` set rows \<Longrightarrow> save_loop hs rows acc = (rows, acc)"
  by (induction hs arbitrary: acc) (auto simp: title_exists_iff)

lemma save_headlines_loop: "save_headlines rows hs = save_loop hs rows []"
  by (simp add: save_headlines_def)

lemma save_headlines_stored: "fst (save_headlines rows hs) = stored hs rows"
  by (simp add: save_headlines_def save_loop_stored)

text \<open>
  C3: \<open>save_headlines\<close> returns exactly the candidates, in input order, whose title has no
  row in the table as it stands when the loop reaches them, and the table afterwards is the
  old table followed by one row for each returned candidate, holding its title and link.
\<close>

theorem save_headlines_returns_new:
  assumes "save_headlines rows hs = (rows', new)"
  shows "new = nths hs {i. i < length hs \<and>
                          \<not> title_exists (store_before rows hs i) (title (hs ! i))} \<and>
         (\<exists>added. rows' = rows @ added \<and>
            map (\<lambda>r. (row_title r, row_url r)) added = map (\<lambda>h. (title h, url h)) new)"
proof -
  have loop: "save_loop hs rows [] = (rows', new)"
    using assms by (simp add: save_headlines_loop)
  have "new = snd (save_loop hs rows [])"
    using loop by simp
  then have first: "new = nths hs {i. i < length hs \<and>
      \<not> title_exists (store_before rows hs i) (title (hs ! i))}"
    by (simp add: save_loop_new [of hs rows "[]"] store_before_def save_loop_stored)
  have rows': "rows' = stored hs rows"
    using loop save_loop_stored [of hs rows "[]"] by simp
  then obtain added where added: "rows' = rows @ added"
    using stored_extends [of hs rows] by auto
  have "map (\<lambda>r. (row_title r, row_url r)) (fst (save_loop hs rows [])) =
      map (\<lambda>r. (row_title r, row_url r)) rows @
      map (\<lambda>h. (title h, url h)) (snd (save_loop hs rows []))"
    by (rule save_loop_fields) simp
  then have "map (\<lambda>r. (row_title r, row_url r)) added = map (\<lambda>h. (title h, url h)) new"
    using loop added by simp
  with first added show ?thesis by blast
qed

lemma save_headlines_sample:
  "save_headlines sample_rows sample_batch =
     (sample_rows @
        [\<lparr>row_id = 2, row_title = ''Storm warnings issued for coast'',
          row_url = ''https://www.bbc.com/news/uk-5''\<rparr>,
         \<lparr>row_id = 3, row_title = ''Election results expected tonight'',
          row_url = ''https://www.bbc.co.uk/news/politics-2''\<rparr>],
      [\<lparr>title = ''Storm warnings issued for coast'', url = ''https://www.bbc.com/news/uk-5''\<rparr>,
       \<lparr>title = ''Election results expected tonight'',
        url = ''https://www.bbc.co.uk/news/politics-2''\<rparr>])"
  by (simp add: save_headlines_def sample_rows_def sample_batch_def title_exists_def
      insert_row_def next_id_def)

theorem save_headlines_returns_new_witness:
  "save_headlines sample_rows sample_batch =
     (sample_rows @
        [\<lparr>row_id = 2, row_title = ''Storm warnings issued for coast'',
          row_url = ''https://www.bbc.com/news/uk-5''\<rparr>,
         \<lparr>row_id = 3, row_title = ''Election results expected tonight'',
          row_url = ''https://www.bbc.co.uk/news/politics-2''\<rparr>],
      [sample_batch ! 0, sample_batch ! 3]) \<and>
   [sample_batch ! 0, sample_batch ! 3] =
     nths sample_batch {i. i < length sample_batch \<and>
        \<not> title_exists (store_before sample_rows sample_batch i) (title (sample_batch ! i))}"
proof -
  have run: "save_headlines sample_rows sample_batch =
     (sample_rows @
        [\<lparr>row_id = 2, row_title = ''Storm warnings issued for coast'',
          row_url = ''https://www.bbc.com/news/uk-5''\<rparr>,
         \<lparr>row_id = 3, row_title = ''Election results expected tonight'',
          row_url = ''https://www.bbc.co.uk/news/politics-2''\<rparr>],
      [sample_batch ! 0, sample_batch ! 3])"
    unfolding save_headlines_sample by (simp add: sample_batch_def)
  from save_headlines_returns_new [OF run] run show ?thesis by blast
qed

subsection \<open>Idempotence and the one-row-per-title invariant\<close>

lemma save_headlines_again:
  "save_headlines (stored hs rows) hs = (stored hs rows, [])"
proof -
  have "title ` set hs \<subseteq> row_title ` set (stored hs rows)"
    by (simp add: stored_titles)
  then have "save_loop hs (stored hs rows) [] = (stored hs rows, [])"
    by (rule save_loop_known)
  then show ?thesis by (simp add: save_headlines_def)
qed

lemma save_all_distinct:
  "distinct (map row_title rows) \<Longrightarrow> distinct (map row_title (save_all rows batches))"
  unfolding save_all_def
  by (induction batches arbitrary: rows) (simp_all add: save_headlines_stored stored_distinct)

lemma save_all_titles:
  "row_title ` set (save_all rows batches) =
     row_title ` set rows \<union> title ` (\<Union>b \<in> set batches. set b)"
  unfolding save_all_def
  by (induction batches arbitrary: rows)
    (auto simp: save_headlines_stored stored_titles)

text \<open>
  C4: a second call of \<open>save_headlines\<close> with the same candidates returns the empty list and
  leaves the table as the first call left it; a table with at most one row per title keeps
  that property through a call; and from the empty table, after any sequence of calls, the
  table holds exactly one row for each distinct title among all the candidates passed.
\<close>

theorem save_headlines_idempotent:
  "save_headlines (fst (save_headlines rows hs)) hs = (fst (save_headlines rows hs), []) \<and>
   (distinct (map row_title rows) \<longrightarrow>
      distinct (map row_title (fst (save_headlines rows hs)))) \<and>
   distinct (map row_title (save_all [] batches)) \<and>
   row_title ` set (save_all [] batches) = title ` (\<Union>b \<in> set batches. set b)"
proof -
  have "distinct (map row_title (save_all [] batches))"
    by (rule save_all_distinct) simp
  moreover have "row_title ` set (save_all [] batches) = title ` (\<Union>b \<in> set batches. set b)"
    using save_all_titles [of "[]" batches] by simp
  ultimately show ?thesis
    by (simp add: save_headlines_stored save_headlines_again stored_distinct)
qed

theorem save_headlines_idempotent_witness:
  "distinct (map row_title sample_rows) \<and>
   distinct (map row_title (fst (save_headlines sample_rows sample_batch))) \<and>
   map row_title (fst (save_headlines sample_rows sample_batch)) =
     [''Markets rally as rates hold'', ''Storm warnings issued for coast'',
      ''Election results expected tonight''] \<and>
   snd (save_headlines (fst (save_headlines sample_rows sample_batch)) sample_batch) = [] \<and>
   distinct (map row_title (save_all [] [sample_batch, sample_batch]))"
  using save_headlines_idempotent [of sample_rows sample_batch "[sample_batch, sample_batch]"]
  by (simp add: save_headlines_sample) (simp add: sample_rows_def)

section \<open>Properties of send_telegram_notification\<close>

lemma get_telegram_credentials_cases:
  "get_telegram_credentials env = (None, []) \<or>
   (\<not> falsy (fst (get_telegram_credentials env)) \<and> snd (get_telegram_credentials env) \<noteq> [])"
  by (simp add: get_telegram_credentials_def Let_def)

lemma send_loop_result:
  "send_loop net m i cs k sent =
     (k + length (filter (\<lambda>(j, c). net j c = PostStatus 200) (enumerate i cs)),
      sent @ map (\<lambda>c. (c, m)) cs)"
  by (induction cs arbitrary: i k sent) (simp_all split: post_result.splits)

lemma send_telegram_notification_result:
  "send_telegram_notification env net message =
     ((length (filter (\<lambda>(i, c). net i c = PostStatus 200)
                 (enumerate 0 (snd (get_telegram_credentials env)))),
       length (snd (get_telegram_credentials env))),
      map (\<lambda>c. (c, message)) (snd (get_telegram_credentials env)))"
proof (cases "get_telegram_credentials env = (None, [])")
  case True
  then show ?thesis
    by (simp add: send_telegram_notification_def falsy_def)
next
  case False
  with get_telegram_credentials_cases [of env]
  have ok: "\<not> falsy (fst (get_telegram_credentials env))"
    "snd (get_telegram_credentials env) \<noteq> []"
    by blast+
  then show ?thesis
    by (simp add: send_telegram_notification_def send_loop_result case_prod_unfold Let_def)
qed

text \<open>
  C5: with \<open>chat_ids\<close> the recipient list that \<open>get_telegram_credentials\<close> yields,
  \<open>send_telegram_notification\<close> posts one request to every recipient, in order, whatever the
  outcomes of the earlier requests, and returns the number of requests answered with status
  200 together with the number of recipients.
\<close>

theorem notifier_isolation:
  "snd (send_telegram_notification env net message) =
     map (\<lambda>c. (c, message)) (snd (get_telegram_credentials env)) \<and>
   snd (fst (send_telegram_notification env net message)) =
     length (snd (get_telegram_credentials env)) \<and>
   fst (fst (send_telegram_notification env net message)) =
     length (filter (\<lambda>(i, c). net i c = PostStatus 200)
               (enumerate 0 (snd (get_telegram_credentials env))))"
  by (simp add: send_telegram_notification_result)

lemma get_telegram_credentials_sample:
  "get_telegram_credentials sample_env = (Some ''123:abc'', [''42'', ''77'', ''901''])"
  by (simp add: get_telegram_credentials_def sample_env_def falsy_def strip_def isspace_def)

theorem notifier_isolation_witness:
  "snd (get_telegram_credentials sample_env) = [''42'', ''77'', ''901''] \<and>
   sample_net 1 ''77'' = PostRaised \<and>
   snd (send_telegram_notification sample_env sample_net ''news'') =
     [(''42'', ''news''), (''77'', ''news''), (''901'', ''news'')] \<and>
   fst (send_telegram_notification sample_env sample_net ''news'') = (2, 3)"
  using notifier_isolation [of sample_env sample_net "''news''"]
  by (simp add: get_telegram_credentials_sample sample_net_def enumerate_eq_zip prod_eq_iff)

section \<open>Properties of main\<close>

lemma message_loop_closed:
  "message_loop i items m = m @ concat (map (\<lambda>(j, h). message_entry j h) (enumerate i items))"
  by (induction items arbitrary: i m) simp_all

lemma format_message_closed:
  "format_message new =
     message_header @ concat (map (\<lambda>(j, h). message_entry j h) (enumerate 1 (take 5 new)))"
  by (simp add: format_message_def message_loop_closed)

lemma format_message_not_test: "format_message new \<noteq> test_message"
  by (simp add: format_message_closed message_header_def test_message_def)

lemma embedded_title_length: "length (embedded_title t) \<le> 80"
  by (simp add: embedded_title_def)

lemma valid_credentials:
  "get_telegram_credentials env = (Some token, chat_ids) \<Longrightarrow>
   \<not> falsy (Some token) \<and> chat_ids \<noteq> []"
  using get_telegram_credentials_cases [of env] by auto

lemma empty_store_first_run: "table_rows d = [] \<Longrightarrow> is_first_run d"
  by (auto simp: is_first_run_def count_headlines_def table_rows_def split: option.splits)

lemma main_first_events:
  assumes "get_telegram_credentials (w_env w) = (Some token, chat_ids)"
    and "is_first_run (w_db w)"
  shows "\<exists>rest. run_events (main w) =
           Notification test_message (map (\<lambda>c. (c, test_message)) chat_ids) #
           DatabaseSetup (setup_database (w_db w) \<noteq> None) # rest \<and>
           (\<forall>e \<in> set rest. \<not> is_bootstrap e)"
proof -
  from valid_credentials [OF assms(1)] have ok: "\<not> falsy (Some token)" "chat_ids \<noteq> []"
    by simp_all
  show ?thesis
    using assms ok
    by (auto simp: main_def Let_def send_test_notification_def
        send_telegram_notification_result format_message_not_test
        split: option.splits prod.splits)
qed



lemma save_headlines_added:
  assumes "save_headlines rows hs = (rows', new)"
  shows "\<exists>added. rows' = rows @ added \<and>
           map (\<lambda>r. (row_title r, row_url r)) added = map (\<lambda>h. (title h, url h)) new"
proof -
  have loop: "save_loop hs rows [] = (rows', new)"
    using assms by (simp add: save_headlines_loop)
  then have "rows' = stored hs rows"
    using save_loop_stored [of hs rows "[]"] by simp
  then obtain added where added: "rows' = rows @ added"
    using stored_extends [of hs rows] by auto
  have "map (\<lambda>r. (row_title r, row_url r)) (fst (save_loop hs rows [])) =
      map (\<lambda>r. (row_title r, row_url r)) rows @
      map (\<lambda>h. (title h, url h)) (snd (save_loop hs rows []))"
    by (rule save_loop_fields) simp
  then have "map (\<lambda>r. (row_title r, row_url r)) added = map (\<lambda>h. (title h, url h)) new"
    using loop added by simp
  with added show ?thesis by blast
qed

lemma saved_rows_present:
  assumes "save_headlines rows hs = (rows', new)" and "h \<in> set new"
  shows "\<exists>r \<in> set rows'. row_title r = title h \<and> row_url r = url h"
proof -
  from save_headlines_added [OF assms(1)] obtain added where
    added: "rows' = rows @ added"
      "map (\<lambda>r. (row_title r, row_url r)) added = map (\<lambda>h. (title h, url h)) new"
    by blast
  have "(title h, url h) \<in> set (map (\<lambda>h. (title h, url h)) new)"
    using assms(2) by auto
  then have "(title h, url h) \<in> set (map (\<lambda>r. (row_title r, row_url r)) added)"
    using added(2) by simp
  then obtain r where "r \<in> set added" "row_title r = title h" "row_url r = url h"
    by auto
  with added(1) show ?thesis by auto
qed

lemma main_notifies:
  assumes "setup_database (w_db w) = Some rows"
    and "save_headlines rows (fetch_headlines (w_get w)) = (rows', new)"
    and "new \<noteq> []"
    and "get_telegram_credentials (w_env w) = (Some token, chat_ids)"
  shows "(\<exists>before. run_events (main w) =
            before @ [Saved new,
                      Notification (format_message new)
                        (map (\<lambda>c. (c, format_message new)) chat_ids),
                      Closed]) \<and>
         run_table (main w) = Some rows'"
proof -
  from valid_credentials [OF assms(4)] have ok: "\<not> falsy (Some token)" "chat_ids \<noteq> []"
    by simp_all
  have fetched: "fetch_headlines (w_get w) \<noteq> []"
    using assms(2,3) by (auto simp: save_headlines_def)
  show ?thesis
    using assms ok fetched
    by (simp add: main_def Let_def send_telegram_notification_result)
qed

lemma format_message_text:
  "format_message new =
     ''<b>'' @ [CHR 0xF0, CHR 0x9F, CHR 0x93, CHR 0xB0] @ '' Latest BBC Headlines</b>'' @
     [CHR 0x0A, CHR 0x0A] @
     concat (map (\<lambda>(i, h).
                str_nat i @ ''. <b>'' @
                (if length (title h) > 80 then take 77 (title h) @ ''...'' else title h) @
                ''</b>'' @ [CHR 0x0A] @
                ''<a href='' @ [CHR 0x27] @ url h @ [CHR 0x27] @ ''>Read more '' @
                [CHR 0xE2, CHR 0x86, CHR 0x92] @ ''</a>'' @ [CHR 0x0A, CHR 0x0A])
             (enumerate 1 (take 5 new)))"
  by (simp add: format_message_closed message_header_def message_entry_def embedded_title_def
      newline_def)

lemma str_nat_digits: "map str_nat [1, 2, 3, 4, 5] = [''1'', ''2'', ''3'', ''4'', ''5'']"
  by (simp add: str_nat.simps)

lemma embedded_title_text:
  "embedded_title t = (if length t > 80 then take 77 t @ ''...'' else t)"
  by (simp add: embedded_title_def)

text \<open>
  C6: in a run where the database is set up, \<open>save_headlines\<close> returns a non-empty list
  \<open>new\<close> and the credentials are valid, the run ends with the save, one notification and the
  close. The notification's message is, character for character, the header followed by one
  entry for each of the first 5 items of \<open>new\<close>, in order and numbered 1 to 5 in decimal;
  an entry holds the item's title, unchanged when it has at most 80 characters and otherwise
  cut to its first 77 characters followed by three dots, and the item's link. Every title so
  embedded has at most 80 characters. The table after the run holds a row with the title and
  link of every item of \<open>new\<close>, the sixth and later ones included.
\<close>

theorem headline_message_cap:
  assumes "setup_database (w_db w) = Some rows"
    and "save_headlines rows (fetch_headlines (w_get w)) = (rows', new)"
    and "new \<noteq> []"
    and "get_telegram_credentials (w_env w) = (Some token, chat_ids)"
  shows "(\<exists>before. run_events (main w) =
            before @ [Saved new,
                      Notification (format_message new)
                        (map (\<lambda>c. (c, format_message new)) chat_ids),
                      Closed]) \<and>
         format_message new =
           ''<b>'' @ [CHR 0xF0, CHR 0x9F, CHR 0x93, CHR 0xB0] @ '' Latest BBC Headlines</b>'' @
           [CHR 0x0A, CHR 0x0A] @
           concat (map (\<lambda>(i, h).
                      str_nat i @ ''. <b>'' @
                      (if length (title h) > 80 then take 77 (title h) @ ''...'' else title h) @
                      ''</b>'' @ [CHR 0x0A] @
                      ''<a href='' @ [CHR 0x27] @ url h @ [CHR 0x27] @ ''>Read more '' @
                      [CHR 0xE2, CHR 0x86, CHR 0x92] @ ''</a>'' @ [CHR 0x0A, CHR 0x0A])
                   (enumerate 1 (take 5 new))) \<and>
         map str_nat [1, 2, 3, 4, 5] = [''1'', ''2'', ''3'', ''4'', ''5''] \<and>
         (\<forall>h \<in> set new.
            embedded_title (title h) =
              (if length (title h) > 80 then take 77 (title h) @ ''...'' else title h) \<and>
            length (embedded_title (title h)) \<le> 80) \<and>
         run_table (main w) = Some rows' \<and>
         (\<forall>h \<in> set new. \<exists>r \<in> set rows'. row_title r = title h \<and> row_url r = url h)"
proof -
  have short: "\<forall>h \<in> set new.
      embedded_title (title h) =
        (if length (title h) > 80 then take 77 (title h) @ ''...'' else title h) \<and>
      length (embedded_title (title h)) \<le> 80"
    using embedded_title_text embedded_title_length by blast
  have rows: "\<forall>h \<in> set new. \<exists>r \<in> set rows'. row_title r = title h \<and> row_url r = url h"
    using saved_rows_present [OF assms(2)] by blast
  from main_notifies [OF assms] format_message_text [of new] str_nat_digits short rows
  show ?thesis by blast
qed

lemma busy_fetch: "fetch_headlines (w_get busy_world) = map busy_headline [1, 2, 3, 4, 5, 6, 7]"
  by (simp add: busy_world_def fetch_headlines_def fetch_body_def extract_headlines_def
      selectors_def busy_soup_def candidate_def absolute_url_def startswith_def BBC_URL_def
      busy_headline_def str_nat.simps)

lemma busy_save:
  "save_headlines [] (map busy_headline [1, 2, 3, 4, 5, 6, 7]) =
     (map (\<lambda>k. \<lparr>row_id = k, row_title = title (busy_headline k),
                 row_url = url (busy_headline k)\<rparr>) [1, 2, 3, 4, 5, 6, 7],
      map busy_headline [1, 2, 3, 4, 5, 6, 7])"
  by (simp add: save_headlines_def title_exists_def insert_row_def next_id_def
      busy_headline_def str_nat.simps)

lemma busy_setup: "setup_database (w_db busy_world) = Some []"
  by (simp add: busy_world_def setup_database_def create_table_def table_rows_def)

lemma busy_credentials:
  "get_telegram_credentials (w_env busy_world) = (Some ''123:abc'', [''42'', ''77'', ''901''])"
  by (simp add: busy_world_def get_telegram_credentials_sample)

lemma busy_message:
  "''<b>'' @ [CHR 0xF0, CHR 0x9F, CHR 0x93, CHR 0xB0] @ '' Latest BBC Headlines</b>'' @
     [CHR 0x0A, CHR 0x0A] @
     concat (map (\<lambda>(i, h).
                str_nat i @ ''. <b>'' @
                (if length (title h) > 80 then take 77 (title h) @ ''...'' else title h) @
                ''</b>'' @ [CHR 0x0A] @
                ''<a href='' @ [CHR 0x27] @ url h @ [CHR 0x27] @ ''>Read more '' @
                [CHR 0xE2, CHR 0x86, CHR 0x92] @ ''</a>'' @ [CHR 0x0A, CHR 0x0A])
             (enumerate 1 (take 5 (map busy_headline [1, 2, 3, 4, 5, 6, 7])))) =
   ''<b>'' @ [CHR 0xF0, CHR 0x9F, CHR 0x93, CHR 0xB0] @ '' Latest BBC Headlines</b>'' @
     [CHR 0x0A, CHR 0x0A] @
   ''1. <b>Headline 1 '' @ replicate 66 (CHR ''x'') @ ''...</b>'' @ [CHR 0x0A] @
   ''<a href='' @ [CHR 0x27] @ ''https://www.bbc.com/news/1'' @ [CHR 0x27] @ ''>Read more '' @
     [CHR 0xE2, CHR 0x86, CHR 0x92] @ ''</a>'' @ [CHR 0x0A, CHR 0x0A] @
   ''2. <b>Headline 2 xxxxxxxxxxxx</b>'' @ [CHR 0x0A] @
   ''<a href='' @ [CHR 0x27] @ ''https://www.bbc.com/news/2'' @ [CHR 0x27] @ ''>Read more '' @
     [CHR 0xE2, CHR 0x86, CHR 0x92] @ ''</a>'' @ [CHR 0x0A, CHR 0x0A] @
   ''3. <b>Headline 3 xxxxxxxxxxxx</b>'' @ [CHR 0x0A] @
   ''<a href='' @ [CHR 0x27] @ ''https://www.bbc.com/news/3'' @ [CHR 0x27] @ ''>Read more '' @
     [CHR 0xE2, CHR 0x86, CHR 0x92] @ ''</a>'' @ [CHR 0x0A, CHR 0x0A] @
   ''4. <b>Headline 4 xxxxxxxxxxxx</b>'' @ [CHR 0x0A] @
   ''<a href='' @ [CHR 0x27] @ ''https://www.bbc.com/news/4'' @ [CHR 0x27] @ ''>Read more '' @
     [CHR 0xE2, CHR 0x86, CHR 0x92] @ ''</a>'' @ [CHR 0x0A, CHR 0x0A] @
   ''5. <b>Headline 5 xxxxxxxxxxxx</b>'' @ [CHR 0x0A] @
   ''<a href='' @ [CHR 0x27] @ ''https://www.bbc.com/news/5'' @ [CHR 0x27] @ ''>Read more '' @
     [CHR 0xE2, CHR 0x86, CHR 0x92] @ ''</a>'' @ [CHR 0x0A, CHR 0x0A]"
  by (simp add: enumerate_eq_zip upt_rec busy_headline_def str_nat.simps BBC_URL_def
      numeral_eq_Suc)

lemma busy_long_title:
  "title (busy_headline 1) = ''Headline 1 '' @ replicate 90 (CHR ''x'')"
  "(if length (title (busy_headline 1)) > 80
    then take 77 (title (busy_headline 1)) @ ''...'' else title (busy_headline 1)) =
   ''Headline 1 '' @ replicate 66 (CHR ''x'') @ ''...''"
  by (simp_all add: busy_headline_def str_nat.simps)

theorem headline_message_cap_witness:
  "setup_database (w_db busy_world) = Some [] \<and>
   save_headlines [] (fetch_headlines (w_get busy_world)) =
     (map (\<lambda>k. \<lparr>row_id = k, row_title = title (busy_headline k),
                 row_url = url (busy_headline k)\<rparr>) [1, 2, 3, 4, 5, 6, 7],
      map busy_headline [1, 2, 3, 4, 5, 6, 7]) \<and>
   get_telegram_credentials (w_env busy_world) = (Some ''123:abc'', [''42'', ''77'', ''901'']) \<and>
   format_message (map busy_headline [1, 2, 3, 4, 5, 6, 7]) =
     ''<b>'' @ [CHR 0xF0, CHR 0x9F, CHR 0x93, CHR 0xB0] @ '' Latest BBC Headlines</b>'' @
       [CHR 0x0A, CHR 0x0A] @
     ''1. <b>Headline 1 '' @ replicate 66 (CHR ''x'') @ ''...</b>'' @ [CHR 0x0A] @
     ''<a href='' @ [CHR 0x27] @ ''https://www.bbc.com/news/1'' @ [CHR 0x27] @ ''>Read more '' @
       [CHR 0xE2, CHR 0x86, CHR 0x92] @ ''</a>'' @ [CHR 0x0A, CHR 0x0A] @
     ''2. <b>Headline 2 xxxxxxxxxxxx</b>'' @ [CHR 0x0A] @
     ''<a href='' @ [CHR 0x27] @ ''https://www.bbc.com/news/2'' @ [CHR 0x27] @ ''>Read more '' @
       [CHR 0xE2, CHR 0x86, CHR 0x92] @ ''</a>'' @ [CHR 0x0A, CHR 0x0A] @
     ''3. <b>Headline 3 xxxxxxxxxxxx</b>'' @ [CHR 0x0A] @
     ''<a href='' @ [CHR 0x27] @ ''https://www.bbc.com/news/3'' @ [CHR 0x27] @ ''>Read more '' @
       [CHR 0xE2, CHR 0x86, CHR 0x92] @ ''</a>'' @ [CHR 0x0A, CHR 0x0A] @
     ''4. <b>Headline 4 xxxxxxxxxxxx</b>'' @ [CHR 0x0A] @
     ''<a href='' @ [CHR 0x27] @ ''https://www.bbc.com/news/4'' @ [CHR 0x27] @ ''>Read more '' @
       [CHR 0xE2, CHR 0x86, CHR 0x92] @ ''</a>'' @ [CHR 0x0A, CHR 0x0A] @
     ''5. <b>Headline 5 xxxxxxxxxxxx</b>'' @ [CHR 0x0A] @
     ''<a href='' @ [CHR 0x27] @ ''https://www.bbc.com/news/5'' @ [CHR 0x27] @ ''>Read more '' @
       [CHR 0xE2, CHR 0x86, CHR 0x92] @ ''</a>'' @ [CHR 0x0A, CHR 0x0A] \<and>
   title (busy_headline 1) = ''Headline 1 '' @ replicate 90 (CHR ''x'') \<and>
   embedded_title (title (busy_headline 1)) =
     ''Headline 1 '' @ replicate 66 (CHR ''x'') @ ''...'' \<and>
   length (embedded_title (title (busy_headline 1))) \<le> 80 \<and>
   run_table (main busy_world) =
     Some (map (\<lambda>k. \<lparr>row_id = k, row_title = title (busy_headline k),
                      row_url = url (busy_headline k)\<rparr>) [1, 2, 3, 4, 5, 6, 7]) \<and>
   (\<exists>r \<in> set (map (\<lambda>k. \<lparr>row_id = k, row_title = title (busy_headline k),
                           row_url = url (busy_headline k)\<rparr>) [1, 2, 3, 4, 5, 6, 7]).
      row_title r = title (busy_headline 7) \<and> row_url r = url (busy_headline 7))"
proof -
  let ?new = "map busy_headline [1, 2, 3, 4, 5, 6, 7]"
  let ?rows = "map (\<lambda>k. \<lparr>row_id = k, row_title = title (busy_headline k),
                 row_url = url (busy_headline k)\<rparr>) [1, 2, 3, 4, 5, 6, 7]"
  have b: "save_headlines [] (fetch_headlines (w_get busy_world)) = (?rows, ?new)"
    by (simp only: busy_fetch busy_save)
  have c: "?new \<noteq> []" by simp
  have first: "busy_headline 1 \<in> set ?new" and last: "busy_headline 7 \<in> set ?new"
    by simp_all
  note run = headline_message_cap [OF busy_setup b c busy_credentials]
  from run have t1: "run_table (main busy_world) = Some ?rows" by blast
  from run have "format_message ?new =
      ''<b>'' @ [CHR 0xF0, CHR 0x9F, CHR 0x93, CHR 0xB0] @ '' Latest BBC Headlines</b>'' @
      [CHR 0x0A, CHR 0x0A] @
      concat (map (\<lambda>(i, h).
                 str_nat i @ ''. <b>'' @
                 (if length (title h) > 80 then take 77 (title h) @ ''...'' else title h) @
                 ''</b>'' @ [CHR 0x0A] @
                 ''<a href='' @ [CHR 0x27] @ url h @ [CHR 0x27] @ ''>Read more '' @
                 [CHR 0xE2, CHR 0x86, CHR 0x92] @ ''</a>'' @ [CHR 0x0A, CHR 0x0A])
              (enumerate 1 (take 5 ?new)))"
    by blast
  then have t2: "format_message ?new =
     ''<b>'' @ [CHR 0xF0, CHR 0x9F, CHR 0x93, CHR 0xB0] @ '' Latest BBC Headlines</b>'' @
       [CHR 0x0A, CHR 0x0A] @
     ''1. <b>Headline 1 '' @ replicate 66 (CHR ''x'') @ ''...</b>'' @ [CHR 0x0A] @
     ''<a href='' @ [CHR 0x27] @ ''https://www.bbc.com/news/1'' @ [CHR 0x27] @ ''>Read more '' @
       [CHR 0xE2, CHR 0x86, CHR 0x92] @ ''</a>'' @ [CHR 0x0A, CHR 0x0A] @
     ''2. <b>Headline 2 xxxxxxxxxxxx</b>'' @ [CHR 0x0A] @
     ''<a href='' @ [CHR 0x27] @ ''https://www.bbc.com/news/2'' @ [CHR 0x27] @ ''>Read more '' @
       [CHR 0xE2, CHR 0x86, CHR 0x92] @ ''</a>'' @ [CHR 0x0A, CHR 0x0A] @
     ''3. <b>Headline 3 xxxxxxxxxxxx</b>'' @ [CHR 0x0A] @
     ''<a href='' @ [CHR 0x27] @ ''https://www.bbc.com/news/3'' @ [CHR 0x27] @ ''>Read more '' @
       [CHR 0xE2, CHR 0x86, CHR 0x92] @ ''</a>'' @ [CHR 0x0A, CHR 0x0A] @
     ''4. <b>Headline 4 xxxxxxxxxxxx</b>'' @ [CHR 0x0A] @
     ''<a href='' @ [CHR 0x27] @ ''https://www.bbc.com/news/4'' @ [CHR 0x27] @ ''>Read more '' @
       [CHR 0xE2, CHR 0x86, CHR 0x92] @ ''</a>'' @ [CHR 0x0A, CHR 0x0A] @
     ''5. <b>Headline 5 xxxxxxxxxxxx</b>'' @ [CHR 0x0A] @
     ''<a href='' @ [CHR 0x27] @ ''https://www.bbc.com/news/5'' @ [CHR 0x27] @ ''>Read more '' @
       [CHR 0xE2, CHR 0x86, CHR 0x92] @ ''</a>'' @ [CHR 0x0A, CHR 0x0A]"
    by (simp only: busy_message)
  from run first have cut: "embedded_title (title (busy_headline 1)) =
      (if length (title (busy_headline 1)) > 80
       then take 77 (title (busy_headline 1)) @ ''...'' else title (busy_headline 1))"
    and t3': "length (embedded_title (title (busy_headline 1))) \<le> 80"
    by blast+
  from cut have t3: "embedded_title (title (busy_headline 1)) =
      ''Headline 1 '' @ replicate 66 (CHR ''x'') @ ''...''"
    by (simp only: busy_long_title(2))
  from run last have t4: "\<exists>r \<in> set ?rows.
      row_title r = title (busy_headline 7) \<and> row_url r = url (busy_headline 7)"
    by blast
  from busy_setup b busy_credentials t1 t2 t3 t3' t4 busy_long_title(1) show ?thesis
    by blast
qed

subsection \<open>The bootstrap notification\<close>

lemma bootstrap_once:
  assumes "events = Notification test_message posts # DatabaseSetup b # rest"
    and "\<forall>e \<in> set rest. \<not> is_bootstrap e"
  shows "length (filter is_bootstrap events) = 1"
proof -
  have "filter is_bootstrap rest = []"
    using assms(2) by (simp add: filter_empty_conv)
  then show ?thesis using assms(1) by simp
qed

text \<open>
  C7, as the program has it: in a run with valid credentials and no stored rows, the first
  event is the bootstrap notification, posted to every recipient; it comes before the
  attempt to set up the database, whether or not that attempt then succeeds; nothing after
  it is a bootstrap notification, so exactly one is sent, and any headline notification
  comes after it. Nothing is assumed about the headlines fetched.
\<close>

theorem first_run_bootstrap:
  assumes "get_telegram_credentials (w_env w) = (Some token, chat_ids)"
    and "table_rows (w_db w) = []"
  shows "(\<exists>rest. run_events (main w) =
            Notification test_message (map (\<lambda>c. (c, test_message)) chat_ids) #
            DatabaseSetup (setup_database (w_db w) \<noteq> None) # rest \<and>
            (\<forall>e \<in> set rest. \<not> is_bootstrap e)) \<and>
         length (filter is_bootstrap (run_events (main w))) = 1"
proof -
  have "is_first_run (w_db w)"
    using assms(2) by (rule empty_store_first_run)
  from main_first_events [OF assms(1) this] obtain rest where
    rest: "run_events (main w) =
            Notification test_message (map (\<lambda>c. (c, test_message)) chat_ids) #
            DatabaseSetup (setup_database (w_db w) \<noteq> None) # rest"
      "\<forall>e \<in> set rest. \<not> is_bootstrap e"
    by blast
  from bootstrap_once [OF rest] rest show ?thesis by blast
qed

lemma fresh_credentials:
  "get_telegram_credentials (w_env fresh_world) = (Some ''123:abc'', [''42'', ''77'', ''901''])"
  by (simp add: fresh_world_def get_telegram_credentials_sample)

lemma fresh_store: "table_rows (w_db fresh_world) = []"
  by (simp add: fresh_world_def table_rows_def)

lemma fresh_setup: "setup_database (w_db fresh_world) = Some []"
  by (simp add: fresh_world_def setup_database_def create_table_def table_rows_def)

theorem first_run_bootstrap_witness:
  "get_telegram_credentials (w_env fresh_world) = (Some ''123:abc'', [''42'', ''77'', ''901'']) \<and>
   table_rows (w_db fresh_world) = [] \<and>
   (\<exists>rest. run_events (main fresh_world) =
      Notification test_message
        [(''42'', test_message), (''77'', test_message), (''901'', test_message)] #
      DatabaseSetup True # rest) \<and>
   length (filter is_bootstrap (run_events (main fresh_world))) = 1"
  using first_run_bootstrap [OF fresh_credentials fresh_store] fresh_credentials fresh_store
  by (auto simp: fresh_setup)

lemma readonly_credentials:
  "get_telegram_credentials (w_env readonly_world) = (Some ''123:abc'', [''42''])"
  by (simp add: readonly_world_def get_telegram_credentials_def falsy_def strip_def isspace_def)

lemma readonly_setup: "setup_database (w_db readonly_world) = None"
  by (simp add: readonly_world_def setup_database_def create_table_def)

lemma readonly_run:
  "run_events (main readonly_world) =
     [Notification test_message [(''42'', test_message)], DatabaseSetup False]"
  by (simp add: main_def readonly_credentials readonly_setup falsy_def
      send_test_notification_def send_telegram_notification_result)
    (simp add: readonly_world_def is_first_run_def count_headlines_def)

text \<open>
  Against C7 as stated: with valid credentials and no stored rows, on a database file that
  cannot be written, \<open>setup_database\<close> fails and yet the bootstrap notification has been
  posted, before the attempt.
\<close>

theorem bootstrap_before_setup_counterexample:
  "get_telegram_credentials (w_env readonly_world) = (Some ''123:abc'', [''42'']) \<and>
   table_rows (w_db readonly_world) = [] \<and>
   setup_database (w_db readonly_world) = None \<and>
   run_events (main readonly_world) =
     [Notification test_message [(''42'', test_message)], DatabaseSetup False]"
  by (simp add: readonly_credentials readonly_setup readonly_run)
    (simp add: readonly_world_def table_rows_def)

subsection \<open>Failure of setup_database\<close>





subsection \<open>is_first_run on a storage error\<close>

lemma count_headlines_fails:
  "\<not> db_opens d \<or> db_table d = None \<Longrightarrow> count_headlines d = Inl DatabaseError"
  by (auto simp: count_headlines_def)

text \<open>
  C10: when the database file cannot be opened or the \<open>headlines\<close> table does not exist, the
  count raises, \<open>is_first_run\<close> returns \<open>True\<close>, and with valid credentials the run starts
  with the bootstrap notification.
\<close>

theorem first_run_on_storage_error:
  assumes "\<not> db_opens (w_db w) \<or> db_table (w_db w) = None"
  shows "count_headlines (w_db w) = Inl DatabaseError \<and>
         is_first_run (w_db w) \<and>
         (\<forall>token chat_ids.
            get_telegram_credentials (w_env w) = (Some token, chat_ids) \<longrightarrow>
            (\<exists>rest. run_events (main w) =
               Notification test_message (map (\<lambda>c. (c, test_message)) chat_ids) # rest))"
proof -
  have raised: "count_headlines (w_db w) = Inl DatabaseError"
    using assms by (rule count_headlines_fails)
  then have first: "is_first_run (w_db w)"
    by (simp add: is_first_run_def)
  have "\<exists>rest. run_events (main w) =
      Notification test_message (map (\<lambda>c. (c, test_message)) chat_ids) # rest"
    if "get_telegram_credentials (w_env w) = (Some token, chat_ids)" for token chat_ids
    using main_first_events [OF that first] by blast
  with raised first show ?thesis by blast
qed

theorem first_run_on_storage_error_witness:
  "\<not> db_opens (w_db blocked_world) \<and>
   db_table (w_db blocked_world) = Some sample_rows \<and>
   get_telegram_credentials (w_env blocked_world) =
     (Some ''123:abc'', [''42'', ''77'', ''901'']) \<and>
   is_first_run (w_db blocked_world) \<and>
   (\<exists>rest. run_events (main blocked_world) =
      Notification test_message
        [(''42'', test_message), (''77'', test_message), (''901'', test_message)] # rest)"
proof -
  have a: "\<not> db_opens (w_db blocked_world) \<or> db_table (w_db blocked_world) = None"
    by (simp add: blocked_world_def)
  have c: "get_telegram_credentials (w_env blocked_world) =
     (Some ''123:abc'', [''42'', ''77'', ''901''])"
    by (simp add: blocked_world_def get_telegram_credentials_sample)
  from first_run_on_storage_error [OF a] c show ?thesis
    by (simp add: blocked_world_def)
qed

end
